theory Spec2Isabelle
  imports Complex_Main "HOL-Library.Word" "HOL-Library.Sublist"
begin

unbundle bit_operations_syntax

section \<open>Reputation aggregation: the composite score\<close>

text \<open>
  \<^verbatim>\<open>GeminiReviewAnalyzer._calculate_composite_score\<close> (gemini_review_analyzer.py, lines 405-435).
  Python's floats are read as real numbers and its counts as integers; \<open>/\<close> on two counts is
  true division.  The local variable \<open>quality_score\<close> of the source is a function of the three
  rating lists alone and is kept as a definition of its own.
\<close>

definition quality_score :: "real list \<Rightarrow> real list \<Rightarrow> real list \<Rightarrow> real" where
  "quality_score technical communication professionalism =
     (let quality_scores = technical @ communication @ professionalism
      in if quality_scores \<noteq> []
         then (sum_list quality_scores / real (length quality_scores) - 1) * 7.5
         else 15)"

definition calculate_composite_score ::
  "int \<Rightarrow> int \<Rightarrow> int \<Rightarrow> int \<Rightarrow> int \<Rightarrow> real \<Rightarrow> real list \<Rightarrow> real list \<Rightarrow> real list
     \<Rightarrow> int \<Rightarrow> int \<Rightarrow> int \<Rightarrow> real" where
  "calculate_composite_score total_reviews high_confidence authentic positive negative
       avg_sentiment technical communication professionalism
       recommendations repeat_clients false_positives =
     (if total_reviews = 0 then 0
      else
        let sentiment_score = max 0 (min 40 ((avg_sentiment + 1) * 20));
            quality = quality_score technical communication professionalism;
            confidence_ratio =
              (if total_reviews > 0 then real_of_int high_confidence / real_of_int total_reviews
               else 0);
            volume_bonus = real_of_int (min 10 total_reviews);
            confidence_bonus = confidence_ratio * 10;
            recommendation_bonus =
              (if total_reviews > 0
               then (real_of_int recommendations / real_of_int total_reviews) * 5 else 0);
            repeat_client_bonus =
              (if total_reviews > 0
               then (real_of_int repeat_clients / real_of_int total_reviews) * 5 else 0);
            false_positive_penalty = real_of_int (min 20 (false_positives * 5));
            composite = sentiment_score + quality + volume_bonus + confidence_bonus
                        + recommendation_bonus + repeat_client_bonus - false_positive_penalty
        in max 0 (min 100 composite))"

section \<open>Strings\<close>

text \<open>
  Python's \<open>str\<close> is modelled by \<open>string\<close>, a list of bytes: the texts are read in their
  UTF-8 encoding (what \<^verbatim>\<open>.encode()\<close> hands to the hash), and the character classes
  below are the ASCII ones.
\<close>

definition is_space :: "char \<Rightarrow> bool" where
  \<comment> \<open>\<^verbatim>\<open>str.isspace\<close> and the regex class \<^verbatim>\<open>\s\<close> on ASCII: tab, newline, vertical tab,
      form feed, carriage return, the four separators 28 to 31, and the blank.\<close>
  "is_space c =
     (c \<in> set [CHR 0x09, CHR 0x0A, CHR 0x0B, CHR 0x0C, CHR 0x0D, CHR 0x1C, CHR 0x1D, CHR 0x1E,
                CHR 0x1F, CHR '' ''])"

definition is_word_char :: "char \<Rightarrow> bool" where
  \<comment> \<open>the regex class \<^verbatim>\<open>\w\<close>: letters, digits and the underscore; a byte of a
      multi-byte character (its highest bit is set) counts as a letter.\<close>
  "is_word_char c =
     (c \<in> set ''abcdefghijklmnopqrstuvwxyzABCDEFGHIJKLMNOPQRSTUVWXYZ0123456789_'' \<or> digit7 c)"

definition lower_char :: "char \<Rightarrow> char" where
  \<comment> \<open>\<^verbatim>\<open>str.lower\<close> on one ASCII character\<close>
  "lower_char c =
     (case map_of (zip ''ABCDEFGHIJKLMNOPQRSTUVWXYZ'' ''abcdefghijklmnopqrstuvwxyz'') c of
        None \<Rightarrow> c
      | Some l \<Rightarrow> l)"

definition lower :: "string \<Rightarrow> string" where
  "lower s = map lower_char s"

fun contains :: "string \<Rightarrow> string \<Rightarrow> bool" where
  \<comment> \<open>\<^verbatim>\<open>needle in hay\<close>\<close>
  "contains [] needle = (needle = [])"
| "contains (c # cs) needle = (prefix needle (c # cs) \<or> contains cs needle)"

fun split_on :: "char \<Rightarrow> string \<Rightarrow> string list" where
  \<comment> \<open>\<^verbatim>\<open>s.split(sep)\<close> for a one-character separator: never an empty list\<close>
  "split_on sep [] = [[]]"
| "split_on sep (c # cs) =
     (if c = sep then [] # split_on sep cs
      else (case split_on sep cs of p # ps \<Rightarrow> (c # p) # ps | [] \<Rightarrow> [[c]]))"

definition strip :: "string \<Rightarrow> string" where
  "strip s = rev (dropWhile is_space (rev (dropWhile is_space s)))"

definition digit_char :: "nat \<Rightarrow> char" where
  "digit_char d = ''0123456789'' ! d"

function str_nat :: "nat \<Rightarrow> string" where
  \<comment> \<open>the decimal digits of a natural number, most significant first\<close>
  "str_nat n = (if n < 10 then [digit_char n] else str_nat (n div 10) @ [digit_char (n mod 10)])"
  by pat_completeness auto
termination
  by (relation "measure (\<lambda>n. n)") auto

declare str_nat.simps [simp del]

definition str_int :: "int \<Rightarrow> string" where
  \<comment> \<open>\<^verbatim>\<open>str(i)\<close> of a Python integer\<close>
  "str_int i = (if i < 0 then CHR ''-'' # str_nat (nat (- i)) else str_nat (nat i))"

section \<open>The MD5 digest\<close>

text \<open>
  \<^verbatim>\<open>hashlib.md5(s.encode()).hexdigest()\<close>, after RFC 1321: the message is padded to whole
  blocks of 64 bytes, each block is read as sixteen little-endian 32-bit words and run through
  the 64 steps, and the four state words are printed as 32 lower-case hexadecimal digits.
\<close>

definition md5_K :: "32 word list" where
  "md5_K = [0xd76aa478, 0xe8c7b756, 0x242070db, 0xc1bdceee, 0xf57c0faf, 0x4787c62a, 0xa8304613, 0xfd469501,
            0x698098d8, 0x8b44f7af, 0xffff5bb1, 0x895cd7be, 0x6b901122, 0xfd987193, 0xa679438e, 0x49b40821,
            0xf61e2562, 0xc040b340, 0x265e5a51, 0xe9b6c7aa, 0xd62f105d, 0x02441453, 0xd8a1e681, 0xe7d3fbc8,
            0x21e1cde6, 0xc33707d6, 0xf4d50d87, 0x455a14ed, 0xa9e3e905, 0xfcefa3f8, 0x676f02d9, 0x8d2a4c8a,
            0xfffa3942, 0x8771f681, 0x6d9d6122, 0xfde5380c, 0xa4beea44, 0x4bdecfa9, 0xf6bb4b60, 0xbebfbc70,
            0x289b7ec6, 0xeaa127fa, 0xd4ef3085, 0x04881d05, 0xd9d4d039, 0xe6db99e5, 0x1fa27cf8, 0xc4ac5665,
            0xf4292244, 0x432aff97, 0xab9423a7, 0xfc93a039, 0x655b59c3, 0x8f0ccc92, 0xffeff47d, 0x85845dd1,
            0x6fa87e4f, 0xfe2ce6e0, 0xa3014314, 0x4e0811a1, 0xf7537e82, 0xbd3af235, 0x2ad7d2bb, 0xeb86d391]"

definition md5_s :: "nat list" where
  "md5_s = [7, 12, 17, 22, 7, 12, 17, 22, 7, 12, 17, 22, 7, 12, 17, 22,
            5, 9, 14, 20, 5, 9, 14, 20, 5, 9, 14, 20, 5, 9, 14, 20,
            4, 11, 16, 23, 4, 11, 16, 23, 4, 11, 16, 23, 4, 11, 16, 23,
            6, 10, 15, 21, 6, 10, 15, 21, 6, 10, 15, 21, 6, 10, 15, 21]"

fun le_bytes :: "nat \<Rightarrow> nat \<Rightarrow> nat list" where
  "le_bytes 0 n = []"
| "le_bytes (Suc k) n = (n mod 256) # le_bytes k (n div 256)"

definition md5_pad :: "string \<Rightarrow> nat list" where
  "md5_pad m =
     (let n = length m
      in map of_char m @ [128] @ replicate ((119 - n mod 64) mod 64) 0
           @ le_bytes 8 ((8 * n) mod 2 ^ 64))"

fun le_words :: "nat list \<Rightarrow> 32 word list" where
  "le_words (a # b # c # d # rest) =
     of_nat (a + 256 * b + 65536 * c + 16777216 * d) # le_words rest"
| "le_words _ = []"

definition md5_blocks :: "32 word list \<Rightarrow> 32 word list list" where
  "md5_blocks ws = map (\<lambda>i. take 16 (drop (16 * i) ws)) [0..<length ws div 16]"

type_synonym md5_state = "32 word \<times> 32 word \<times> 32 word \<times> 32 word"

definition md5_step :: "32 word list \<Rightarrow> md5_state \<Rightarrow> nat \<Rightarrow> md5_state" where
  "md5_step M st i =
     (case st of (a, b, c, d) \<Rightarrow>
        let f = (if i < 16 then (b AND c) OR (NOT b AND d)
                 else if i < 32 then (d AND b) OR (NOT d AND c)
                 else if i < 48 then b XOR c XOR d
                 else c XOR (b OR NOT d));
            g = (if i < 16 then i
                 else if i < 32 then (5 * i + 1) mod 16
                 else if i < 48 then (3 * i + 5) mod 16
                 else (7 * i) mod 16);
            f' = f + a + md5_K ! i + M ! g
        in (d, b + word_rotl (md5_s ! i) f', b, c))"

definition md5_block :: "md5_state \<Rightarrow> 32 word list \<Rightarrow> md5_state" where
  "md5_block st M =
     (case st of (a0, b0, c0, d0) \<Rightarrow>
        case foldl (md5_step M) st [0..<64] of (a, b, c, d) \<Rightarrow>
          (a0 + a, b0 + b, c0 + c, d0 + d))"

definition md5_digest :: "string \<Rightarrow> nat list" where
  "md5_digest m =
     (case foldl md5_block (0x67452301, 0xefcdab89, 0x98badcfe, 0x10325476)
             (md5_blocks (le_words (md5_pad m))) of
        (a, b, c, d) \<Rightarrow> concat (map (\<lambda>w. le_bytes 4 (unat w)) [a, b, c, d]))"

definition hex_byte :: "nat \<Rightarrow> string" where
  "hex_byte n = [''0123456789abcdef'' ! (n div 16), ''0123456789abcdef'' ! (n mod 16)]"

definition md5_hexdigest :: "string \<Rightarrow> string" where
  "md5_hexdigest m = concat (map hex_byte (md5_digest m))"


section \<open>The monitoring store\<close>

text \<open>
  \<^verbatim>\<open>RMTMonitoringDatabase\<close> (incremental_rmt_system.py) keeps four SQLite tables.  A table
  is the list of its rows in insertion order, a nullable column is an \<open>option\<close>, and the JSON
  text of \<open>reviews_data\<close> is the list it encodes (\<open>None\<close> is SQL's NULL, \<open>Some []\<close> the
  text \<^verbatim>\<open>[]\<close>).  Every operation opens its own connection and commits when its block ends,
  so an operation maps a store to a store.  One clock reading \<open>now\<close> per operation stands for
  its calls of \<^verbatim>\<open>datetime.now()\<close> and \<^verbatim>\<open>int(time.time())\<close>.
\<close>

type_synonym timestamp = int

datatype py_value = PyStr string | PyNone | PyInt int

datatype py_error =
    IntegrityError string
  | AttributeError string
  | Raised string


record rmt_data =
  profile_id :: string
  first_name :: string
  last_name :: string
  common_first_name :: string
  common_last_name :: string
  practice_locations :: "(string \<times> string) list list"
  cmto_endpoint :: string
  registration_status :: string
  authorized_to_practice :: bool

record review_data =
  rv_text :: string
  rv_rating :: "int option"
  rv_time :: "int option"
  rv_author_name :: "string option"
  rv_relative_time_description :: "string option"

record place_data =
  pl_place_id :: "string option"
  pl_name :: "string option"
  pl_address :: "string option"

record review_extraction =
  extraction_id :: string
  ex_rmt_data :: rmt_data
  matched_text_segments :: "string list"
  confidence_scores :: "int list"
  ex_review_data :: review_data
  ex_place_data :: place_data

record stored_review =
  review_hash :: string
  sr_extraction_id :: string
  sr_place_id :: string
  sr_place_name :: string
  sr_place_address :: string
  review_text :: string
  review_rating :: int
  review_author :: string
  review_timestamp :: int
  review_time_description :: string
  sr_matched_text_segments :: "string list"
  sr_confidence_scores :: "int list"
  max_confidence :: int
  extracted_at :: timestamp
  extraction_run_id :: string

record profile_row =
  p_profile_id :: string
  p_first_name :: string
  p_last_name :: string
  p_common_first_name :: string
  p_common_last_name :: string
  p_registration_status :: string
  p_authorized_to_practice :: bool
  p_practice_locations :: "(string \<times> string) list list"
  p_cmto_endpoint :: string
  reviews_data :: "stored_review list option"
  total_reviews :: int
  last_review_date :: "timestamp option"
  first_seen_run_id :: "string option"
  last_updated_run_id :: "string option"
  last_updated_at :: "timestamp option"

record analysis =
  an_extraction_id :: py_value
  overall_sentiment :: string
  sentiment_confidence_score :: real
  mention_confidence :: real
  technical_skill_rating :: "int option"
  communication_rating :: "int option"
  professionalism_rating :: "int option"
  review_authenticity :: string
  potential_false_positive :: bool
  overall_analysis_confidence :: real

record ai_analysis_row =
  analysis_id :: string
  a_profile_id :: string
  analysis_run_id :: string
  a_review_hash :: string
  a_sentiment_overall :: string
  a_sentiment_confidence :: real
  a_mention_confidence :: "real option"
  a_technical_skill_rating :: "int option"
  a_communication_rating :: "int option"
  a_professionalism_rating :: "int option"
  a_review_authenticity :: string
  a_potential_false_positive :: bool
  a_overall_analysis_confidence :: real
  analysis_json :: analysis
  analyzed_at :: timestamp
  gemini_model_used :: string

record monitoring_run =
  run_id :: string
  run_type :: string
  started_at :: timestamp
  completed_at :: "timestamp option"
  search_keywords :: "string list"
  rmts_processed :: int
  reviews_extracted :: int
  reviews_analyzed :: int
  status :: string
  error_message :: "string option"

record snapshot_row =
  snapshot_id :: string
  s_run_id :: string
  s_profile_id :: string
  s_rmt_name :: string
  total_reviews_analyzed :: int
  positive_sentiment_count :: int
  negative_sentiment_count :: int
  average_sentiment_score :: real
  composite_reputation_score :: real
  recommendation_rate :: real
  repeat_client_rate :: real
  potential_false_positives :: int
  snapshot_at :: timestamp

record database =
  monitoring_runs :: "monitoring_run list"
  rmt_profiles :: "profile_row list"
  ai_analyses :: "ai_analysis_row list"
  leaderboard_snapshots :: "snapshot_row list"

definition init_database :: database where
  "init_database =
     \<lparr>monitoring_runs = [], rmt_profiles = [], ai_analyses = [], leaderboard_snapshots = []\<rparr>"

subsection \<open>Monitoring runs\<close>







subsection \<open>Profiles and their review extractions\<close>

definition get_or :: "'a option \<Rightarrow> 'a \<Rightarrow> 'a" where
  \<comment> \<open>\<^verbatim>\<open>d.get(key, default)\<close> and \<^verbatim>\<open>x or default\<close> on a nullable column\<close>
  "get_or v d = (case v of None \<Rightarrow> d | Some x \<Rightarrow> x)"

definition find_profile :: "database \<Rightarrow> string \<Rightarrow> profile_row option" where
  "find_profile db pid = find (\<lambda>r. p_profile_id r = pid) (rmt_profiles db)"

definition save_rmt_profile :: "database \<Rightarrow> rmt_data \<Rightarrow> string \<Rightarrow> timestamp \<Rightarrow> database" where
  \<comment> \<open>lines 219-259: update the row of the profile, or insert it with no reviews\<close>
  "save_rmt_profile db rmt rid now =
     (case find_profile db (profile_id rmt) of
        Some existing \<Rightarrow>
          db\<lparr>rmt_profiles :=
               map (\<lambda>r. if p_profile_id r = profile_id rmt
                         then r\<lparr>p_first_name := first_name rmt, p_last_name := last_name rmt,
                                p_common_first_name := common_first_name rmt,
                                p_common_last_name := common_last_name rmt,
                                p_registration_status := registration_status rmt,
                                p_authorized_to_practice := authorized_to_practice rmt,
                                p_practice_locations := practice_locations rmt,
                                p_cmto_endpoint := cmto_endpoint rmt,
                                last_updated_run_id := Some rid, last_updated_at := Some now\<rparr>
                         else r)
                   (rmt_profiles db)\<rparr>
      | None \<Rightarrow>
          db\<lparr>rmt_profiles := rmt_profiles db @
               [\<lparr>p_profile_id = profile_id rmt, p_first_name = first_name rmt,
                 p_last_name = last_name rmt, p_common_first_name = common_first_name rmt,
                 p_common_last_name = common_last_name rmt,
                 p_registration_status = registration_status rmt,
                 p_authorized_to_practice = authorized_to_practice rmt,
                 p_practice_locations = practice_locations rmt,
                 p_cmto_endpoint = cmto_endpoint rmt,
                 reviews_data = None, total_reviews = 0, last_review_date = None,
                 first_seen_run_id = Some rid, last_updated_run_id = Some rid,
                 last_updated_at = Some now\<rparr>]\<rparr>)"

definition review_content :: "review_data \<Rightarrow> string" where
  \<comment> \<open>line 264: text, author and raw time, joined by bars\<close>
  "review_content rd =
     rv_text rd @ ''|'' @ get_or (rv_author_name rd) [] @ ''|'' @ str_int (get_or (rv_time rd) 0)"

definition content_hash :: "review_data \<Rightarrow> string" where
  \<comment> \<open>line 265\<close>
  "content_hash rd = md5_hexdigest (review_content rd)"

definition max_list :: "int list \<Rightarrow> int" where
  \<comment> \<open>\<^verbatim>\<open>max(xs) if xs else 0\<close>\<close>
  "max_list xs = (case xs of [] \<Rightarrow> 0 | x # rest \<Rightarrow> fold max rest x)"

definition new_review :: "review_extraction \<Rightarrow> string \<Rightarrow> timestamp \<Rightarrow> stored_review" where
  \<comment> \<open>lines 288-304\<close>
  "new_review e rid now =
     \<lparr>review_hash = content_hash (ex_review_data e),
      sr_extraction_id = extraction_id e,
      sr_place_id = get_or (pl_place_id (ex_place_data e)) [],
      sr_place_name = get_or (pl_name (ex_place_data e)) [],
      sr_place_address = get_or (pl_address (ex_place_data e)) [],
      review_text = rv_text (ex_review_data e),
      review_rating = get_or (rv_rating (ex_review_data e)) 0,
      review_author = get_or (rv_author_name (ex_review_data e)) [],
      review_timestamp = get_or (rv_time (ex_review_data e)) 0,
      review_time_description = get_or (rv_relative_time_description (ex_review_data e)) [],
      sr_matched_text_segments = matched_text_segments e,
      sr_confidence_scores = confidence_scores e,
      max_confidence = max_list (confidence_scores e),
      extracted_at = now,
      extraction_run_id = rid\<rparr>"

definition save_review_extraction ::
  "database \<Rightarrow> review_extraction \<Rightarrow> string \<Rightarrow> timestamp \<Rightarrow> database \<times> bool" where
  \<comment> \<open>lines 261-326: the store after the call, and the value returned\<close>
  "save_review_extraction db e rid now =
     (let pid = profile_id (ex_rmt_data e);
          h = content_hash (ex_review_data e);
          existing_data = find_profile db pid;
          rdata = (case existing_data of
                     Some row \<Rightarrow> get_or (reviews_data row) []
                   | None \<Rightarrow> []);
          total = (case existing_data of Some row \<Rightarrow> total_reviews row | None \<Rightarrow> 0)
      in if h \<in> set (map review_hash rdata) then (db, False)
         else (db\<lparr>rmt_profiles :=
                    map (\<lambda>r. if p_profile_id r = pid
                              then r\<lparr>reviews_data := Some (rdata @ [new_review e rid now]),
                                     total_reviews := total + 1,
                                     last_review_date := Some now,
                                     last_updated_run_id := Some rid,
                                     last_updated_at := Some now\<rparr>
                              else r)
                        (rmt_profiles db)\<rparr>,
               True))"

subsection \<open>Analyses\<close>

definition save_ai_analysis ::
  "database \<Rightarrow> analysis \<Rightarrow> string \<Rightarrow> string \<Rightarrow> timestamp
     \<Rightarrow> py_error + (database \<times> string list)" where
  \<comment> \<open>lines 328-368: the store after the call and the lines logged as errors;
      \<open>analysis_id\<close> is the primary key of the table\<close>
  "save_ai_analysis db a rid model_used now =
     (case an_extraction_id a of
        PyStr eid \<Rightarrow>
          let parts = split_on CHR ''_'' eid
          in if length parts \<ge> 3
             then
               let pid = hd parts;
                   rh = last parts;
                   aid = ''analysis_'' @ eid @ ''_'' @ str_int now
               in if aid \<in> set (map analysis_id (ai_analyses db))
                  then Inl (IntegrityError ''UNIQUE constraint failed: ai_analyses.analysis_id'')
                  else Inr (db\<lparr>ai_analyses := ai_analyses db @
                              [\<lparr>analysis_id = aid, a_profile_id = pid, analysis_run_id = rid,
                                a_review_hash = rh,
                                a_sentiment_overall = overall_sentiment a,
                                a_sentiment_confidence = sentiment_confidence_score a,
                                a_mention_confidence = Some (mention_confidence a),
                                a_technical_skill_rating = technical_skill_rating a,
                                a_communication_rating = communication_rating a,
                                a_professionalism_rating = professionalism_rating a,
                                a_review_authenticity = review_authenticity a,
                                a_potential_false_positive = potential_false_positive a,
                                a_overall_analysis_confidence = overall_analysis_confidence a,
                                analysis_json = a, analyzed_at = now,
                                gemini_model_used = model_used\<rparr>]\<rparr>, [])
             else Inr (db, [''Invalid extraction_id format: '' @ eid])
      | PyNone \<Rightarrow> Inl (AttributeError ''object has no attribute split'')
      | PyInt i \<Rightarrow> Inl (AttributeError ''object has no attribute split''))"

record unanalyzed_extraction =
  u_extraction_id :: string
  u_profile_id :: string
  u_review_text :: string
  u_review_rating :: int
  u_review_author :: string
  u_review_time_description :: string
  u_place_id :: string
  u_place_name :: string
  u_place_address :: string
  u_matched_text_segments :: "string list"
  u_confidence_scores :: "int list"
  u_max_confidence :: int

definition extraction_row :: "string \<Rightarrow> stored_review \<Rightarrow> unanalyzed_extraction" where
  \<comment> \<open>lines 402-415\<close>
  "extraction_row pid r =
     \<lparr>u_extraction_id = sr_extraction_id r, u_profile_id = pid, u_review_text = review_text r,
      u_review_rating = review_rating r, u_review_author = review_author r,
      u_review_time_description = review_time_description r, u_place_id = sr_place_id r,
      u_place_name = sr_place_name r, u_place_address = sr_place_address r,
      u_matched_text_segments = sr_matched_text_segments r,
      u_confidence_scores = sr_confidence_scores r, u_max_confidence = max_confidence r\<rparr>"

definition analyzed_hashes :: "database \<Rightarrow> string \<Rightarrow> string list" where
  \<comment> \<open>lines 392-396\<close>
  "analyzed_hashes db pid =
     map a_review_hash (filter (\<lambda>a. a_profile_id a = pid) (ai_analyses db))"

definition sql_limit :: "int option \<Rightarrow> 'a list \<Rightarrow> 'a list" where
  \<comment> \<open>lines 381-382: \<^verbatim>\<open>if limit:\<close> skips \<^verbatim>\<open>None\<close> and 0; SQLite reads a negative LIMIT
      as no limit\<close>
  "sql_limit limit rows =
     (case limit of
        None \<Rightarrow> rows
      | Some n \<Rightarrow> if n \<le> 0 then rows else take (nat n) rows)"

definition get_unanalyzed_extractions :: "database \<Rightarrow> int option \<Rightarrow> unanalyzed_extraction list" where
  \<comment> \<open>lines 370-418\<close>
  "get_unanalyzed_extractions db limit =
     (let results = sql_limit limit
            (filter (\<lambda>r. reviews_data r \<noteq> None \<and> reviews_data r \<noteq> Some []) (rmt_profiles db))
      in concat (map (\<lambda>row.
                   map (extraction_row (p_profile_id row))
                     (filter (\<lambda>rv. review_hash rv \<notin> set (analyzed_hashes db (p_profile_id row)))
                        (get_or (reviews_data row) [])))
                 results))"

subsection \<open>Saving an analysis in the analysis-only runner\<close>

definition sentinels :: "string list" where
  "sentinels = [''N/A'', ''id'', ''review'', ''unknown'', ''placeholder'', ''prompt'', ''not'',
                ''provided'']"

definition bad_extraction_id :: "py_value \<Rightarrow> bool" where
  \<comment> \<open>run_analysis_only.py line 119\<close>
  "bad_extraction_id v =
     (case v of
        PyStr s \<Rightarrow> s = [] \<or> strip s = [] \<or> list_ex (contains s) sentinels
      | PyNone \<Rightarrow> True
      | PyInt i \<Rightarrow> True)"

fun py_str :: "py_value \<Rightarrow> string" where
  "py_str (PyStr s) = s"
| "py_str PyNone = ''None''"
| "py_str (PyInt i) = str_int i"

definition save_analysis ::
  "database \<Rightarrow> analysis \<Rightarrow> string \<Rightarrow> timestamp \<Rightarrow> py_error + (database \<times> string list)" where
  \<comment> \<open>\<^verbatim>\<open>AnalysisOnlyRunner.save_analysis\<close>, run_analysis_only.py lines 115-152\<close>
  "save_analysis db a rid now =
     (if bad_extraction_id (an_extraction_id a)
      then Inr (db, [''Skipping analysis with bad extraction_id: '' @ py_str (an_extraction_id a)])
      else
        let eid = py_str (an_extraction_id a);
            pid = hd (split_on CHR ''_'' eid);
            rh = last (split_on CHR ''_'' eid);
            aid = ''analysis_'' @ pid @ ''_'' @ str_int now
        in if aid \<in> set (map analysis_id (ai_analyses db))
           then Inl (IntegrityError ''UNIQUE constraint failed: ai_analyses.analysis_id'')
           else Inr (db\<lparr>ai_analyses := ai_analyses db @
                       [\<lparr>analysis_id = aid, a_profile_id = pid, analysis_run_id = rid,
                         a_review_hash = rh,
                         a_sentiment_overall = overall_sentiment a,
                         a_sentiment_confidence = sentiment_confidence_score a,
                         a_mention_confidence = None,
                         a_technical_skill_rating = technical_skill_rating a,
                         a_communication_rating = communication_rating a,
                         a_professionalism_rating = professionalism_rating a,
                         a_review_authenticity = review_authenticity a,
                         a_potential_false_positive = potential_false_positive a,
                         a_overall_analysis_confidence = overall_analysis_confidence a,
                         analysis_json = a, analyzed_at = now,
                         gemini_model_used = ''gemini-2.5-flash-preview-04-17''\<rparr>]\<rparr>, []))"

definition stored_reviews :: "database \<Rightarrow> string \<Rightarrow> stored_review list" where
  \<comment> \<open>the review entries kept for a profile: what lines 269-279 read back\<close>
  "stored_reviews db pid =
     (case find_profile db pid of Some row \<Rightarrow> get_or (reviews_data row) [] | None \<Rightarrow> [])"

subsection \<open>Extraction identifiers\<close>

definition make_extraction_id :: "rmt_data \<Rightarrow> string \<Rightarrow> string \<Rightarrow> string" where
  \<comment> \<open>rmt_review_extractor.py lines 737-739: profile id, place id and the first eight
      hexadecimal digits of the MD5 of the review text alone\<close>
  "make_extraction_id rmt place_id rtext =
     profile_id rmt @ ''_'' @ place_id @ ''_'' @ take 8 (md5_hexdigest rtext)"

subsection \<open>Sample data\<close>

definition demo_rmt :: rmt_data where
  "demo_rmt =
     \<lparr>profile_id = ''P1'', first_name = ''Jane'', last_name = ''Doe'',
      common_first_name = ''Janie'', common_last_name = ''Doe'',
      practice_locations = [], cmto_endpoint = ''https://cmto.example/P1'',
      registration_status = ''Active'', authorized_to_practice = True\<rparr>"

definition demo_review :: review_data where
  "demo_review =
     \<lparr>rv_text = ''Jane Doe was wonderful'', rv_rating = Some 5, rv_time = Some 1700000000,
      rv_author_name = Some ''Sam'', rv_relative_time_description = Some ''a week ago''\<rparr>"

definition demo_extraction :: review_extraction where
  "demo_extraction =
     \<lparr>extraction_id = make_extraction_id demo_rmt ''place1'' (rv_text demo_review),
      ex_rmt_data = demo_rmt,
      matched_text_segments = [''Jane Doe''],
      confidence_scores = [95],
      ex_review_data = demo_review,
      ex_place_data = \<lparr>pl_place_id = Some ''place1'', pl_name = Some ''Doe Wellness Clinic'',
                        pl_address = Some ''1 Main St''\<rparr>\<rparr>"

definition demo_analysis :: "py_value \<Rightarrow> analysis" where
  "demo_analysis eid =
     \<lparr>an_extraction_id = eid, overall_sentiment = ''positive'',
      sentiment_confidence_score = 0.9, mention_confidence = 0.9,
      technical_skill_rating = Some 5, communication_rating = None,
      professionalism_rating = Some 4, review_authenticity = ''authentic'',
      potential_false_positive = False, overall_analysis_confidence = 0.8\<rparr>"

definition demo_db :: database where
  "demo_db = save_rmt_profile init_database demo_rmt ''full_1'' 1"

section \<open>The run orchestrator\<close>





subsection \<open>The leaderboard snapshot\<close>




subsection \<open>The body of a full run\<close>







subsection \<open>Stores that the operations can produce\<close>






section \<open>The match engine\<close>

text \<open>
  \<^verbatim>\<open>RMTReviewExtractor.find_text_matches\<close> (rmt_review_extractor.py, lines 620-683).

  The regular expressions the function builds are sequences of three kinds of atoms.  The
  pattern \<^verbatim>\<open>re.escape(term).replace(r'\ ', r'\s+')\<close> escapes every blank of the term and then
  turns each escaped blank into \<^verbatim>\<open>\s+\<close>: it is one literal per character of the term, and one
  run of white space per blank.  \<^verbatim>\<open>\b\<close> is a word boundary.  A search returns the leftmost
  match, and \<^verbatim>\<open>\s+\<close> takes the longest run that lets the rest of the pattern match.

  The two fuzzy scores, \<^verbatim>\<open>fuzz.partial_ratio\<close> and \<^verbatim>\<open>fuzz.ratio\<close>, belong to a library and
  are parameters of the model.
\<close>

datatype rx = Lit char | Spaces | Bnd

definition term_rx :: "string \<Rightarrow> rx list" where
  "term_rx t = map (\<lambda>c. if c = CHR '' '' then Spaces else Lit c) t"

definition char_matches :: "bool \<Rightarrow> char \<Rightarrow> char \<Rightarrow> bool" where
  \<comment> \<open>a literal against a character of the text, with or without \<^verbatim>\<open>re.IGNORECASE\<close>\<close>
  "char_matches ignore_case c x = (if ignore_case then lower_char x = lower_char c else x = c)"

definition at_boundary :: "char option \<Rightarrow> string \<Rightarrow> bool" where
  \<comment> \<open>\<^verbatim>\<open>\b\<close>: exactly one of the characters before and after is a word character\<close>
  "at_boundary prev s =
     ((case prev of None \<Rightarrow> False | Some p \<Rightarrow> is_word_char p)
      \<noteq> (case s of [] \<Rightarrow> False | x # xs \<Rightarrow> is_word_char x))"

fun first_some :: "'a option list \<Rightarrow> 'a option" where
  "first_some [] = None"
| "first_some (None # xs) = first_some xs"
| "first_some (Some x # xs) = Some x"

fun rx_match :: "bool \<Rightarrow> rx list \<Rightarrow> char option \<Rightarrow> string \<Rightarrow> string option" where
  \<comment> \<open>the text matched when the pattern is tried at the start of \<open>s\<close>; \<open>prev\<close> is the
      character before\<close>
  "rx_match ic [] prev s = Some []"
| "rx_match ic (Lit c # ps) prev s =
     (case s of
        [] \<Rightarrow> None
      | x # xs \<Rightarrow>
          if char_matches ic c x then map_option ((#) x) (rx_match ic ps (Some x) xs) else None)"
| "rx_match ic (Spaces # ps) prev s =
     first_some
       (map (\<lambda>k. map_option ((@) (take k s)) (rx_match ic ps (Some (s ! (k - 1))) (drop k s)))
          (rev [1..<Suc (length (takeWhile is_space s))]))"
| "rx_match ic (Bnd # ps) prev s =
     (if at_boundary prev s then rx_match ic ps prev s else None)"

fun rx_search_from :: "bool \<Rightarrow> rx list \<Rightarrow> char option \<Rightarrow> string \<Rightarrow> string option" where
  "rx_search_from ic ps prev [] = rx_match ic ps prev []"
| "rx_search_from ic ps prev (c # cs) =
     (case rx_match ic ps prev (c # cs) of
        Some m \<Rightarrow> Some m
      | None \<Rightarrow> rx_search_from ic ps (Some c) cs)"

definition rx_search :: "bool \<Rightarrow> rx list \<Rightarrow> string \<Rightarrow> string option" where
  \<comment> \<open>\<^verbatim>\<open>re.search(pattern, s)\<close>, and \<^verbatim>\<open>match.group()\<close> of its result\<close>
  "rx_search ic ps s = rx_search_from ic ps None s"

definition clean :: "string \<Rightarrow> string" where
  \<comment> \<open>line 632: \<^verbatim>\<open>re.sub(r'[^\w\s]', ' ', text.lower())\<close>\<close>
  "clean t = map (\<lambda>c. if is_word_char c \<or> is_space c then c else CHR '' '') (lower t)"

fun split_ws :: "string \<Rightarrow> string \<Rightarrow> string list" where
  \<comment> \<open>\<^verbatim>\<open>s.split()\<close>: the maximal runs of characters that are not white space; the first
      argument is the run being read\<close>
  "split_ws cur [] = (if cur = [] then [] else [cur])"
| "split_ws cur (c # cs) =
     (if is_space c then (if cur = [] then split_ws [] cs else cur # split_ws [] cs)
      else split_ws (cur @ [c]) cs)"

fun join_blank :: "string list \<Rightarrow> string" where
  \<comment> \<open>\<^verbatim>\<open>' '.join(ws)\<close>\<close>
  "join_blank [] = []"
| "join_blank [w] = w"
| "join_blank (w # v # ws) = w @ '' '' @ join_blank (v # ws)"

record fuzz =
  partial_ratio :: "string \<Rightarrow> string \<Rightarrow> int"
  ratio :: "string \<Rightarrow> string \<Rightarrow> int"

type_synonym match_result = "string \<times> int \<times> string"

definition confidence_threshold :: "string \<Rightarrow> int" where
  \<comment> \<open>line 655, with the thresholds of lines 92-93\<close>
  "confidence_threshold match_type = (if match_type = ''name'' then 75 else 60)"

definition window_match ::
  "fuzz \<Rightarrow> string \<Rightarrow> string \<Rightarrow> string \<Rightarrow> int \<Rightarrow> string list \<Rightarrow> nat \<Rightarrow> match_result option" where
  \<comment> \<open>lines 665-673, the inner loop for one start \<open>i\<close>: the first window of one to four words
      that scores at least the threshold\<close>
  "window_match fz text search_term term_lower threshold ws i =
     (case find (\<lambda>word_combo. ratio fz term_lower word_combo \<ge> threshold)
             (map (\<lambda>j. join_blank (take (j - i) (drop i ws)))
                [i + 1..<min (i + 5) (length ws + 1)]) of
        None \<Rightarrow> None
      | Some word_combo \<Rightarrow>
          Some (search_term, ratio fz term_lower word_combo,
                (case rx_search True (term_rx word_combo) text of
                   Some original_match \<Rightarrow> original_match
                 | None \<Rightarrow> word_combo)))"

definition term_matches :: "fuzz \<Rightarrow> string \<Rightarrow> string \<Rightarrow> string \<Rightarrow> match_result list" where
  \<comment> \<open>lines 635-673, the body of the loop over the search terms: what one term appends.
      In the word-boundary method the pattern searched in the original text is the one
      searched in the cleaned text: the replacement of line 649 finds nothing to replace in a
      pattern whose term has a blank, and a term without a blank never reaches that line.\<close>
  "term_matches fz match_type text search_term =
     (let clean_text = clean text;
          ws = split_ws [] clean_text;
          term_lower = lower search_term
      in if contains clean_text term_lower
         then (case rx_search True (term_rx search_term) text of
                 Some m \<Rightarrow> [(search_term, 95, m)]
               | None \<Rightarrow> [])
         else if rx_search False (Bnd # term_rx term_lower @ [Bnd]) clean_text \<noteq> None
         then (case rx_search True (Bnd # term_rx term_lower @ [Bnd]) text of
                 Some m \<Rightarrow> [(search_term, 90, m)]
               | None \<Rightarrow> [])
         else
           let threshold = confidence_threshold match_type;
               full_score = partial_ratio fz term_lower clean_text
           in if full_score \<ge> threshold
              then [(search_term, full_score, ''[Fuzzy match in full text]'')]
              else List.map_filter
                     (window_match fz text search_term term_lower threshold ws)
                     [0..<length ws])"

fun unique_matches :: "string list \<Rightarrow> match_result list \<Rightarrow> match_result list" where
  \<comment> \<open>lines 676-681: the first match of every term\<close>
  "unique_matches seen [] = []"
| "unique_matches seen (m # ms) =
     (if fst m \<in> set seen then unique_matches seen ms
      else m # unique_matches (fst m # seen) ms)"

definition find_text_matches ::
  "fuzz \<Rightarrow> string \<Rightarrow> string list \<Rightarrow> string \<Rightarrow> match_result list" where
  \<comment> \<open>lines 620-683; \<^verbatim>\<open>sorted(..., reverse=True)\<close> is stable, as \<open>sort_key\<close> is\<close>
  "find_text_matches fz text search_terms match_type =
     (if text = [] \<or> search_terms = [] then []
      else unique_matches []
             (sort_key (\<lambda>m. - fst (snd m))
                (concat (map (term_matches fz match_type text) search_terms))))"

subsection \<open>Sample scorers\<close>

text \<open>
  Two scorers of the kind the library provides, for evaluating the engine on sample texts:
  the similarity \<open>2 * LCS / (|a| + |b|)\<close> in per cent, rounded to the nearest integer (to the
  even one at a tie, as Python's \<^verbatim>\<open>round\<close>), and its maximum over the windows of the longer
  string that are as long as the shorter one.
\<close>

fun lcs_row :: "char \<Rightarrow> string \<Rightarrow> nat list \<Rightarrow> nat \<Rightarrow> nat list" where
  "lcs_row x (y # ys) (p0 # p1 # ps) left =
     (let v = (if x = y then Suc p0 else max p1 left) in v # lcs_row x ys (p1 # ps) v)"
| "lcs_row x ys ps left = []"

definition lcs_length :: "string \<Rightarrow> string \<Rightarrow> nat" where
  "lcs_length a b = last (fold (\<lambda>x row. 0 # lcs_row x b row 0) a (replicate (Suc (length b)) 0))"

definition round_half_even :: "nat \<Rightarrow> nat \<Rightarrow> int" where
  \<comment> \<open>\<^verbatim>\<open>int(round(n / d))\<close>\<close>
  "round_half_even n d =
     (let q = n div d; r = n mod d
      in if 2 * r < d then int q
         else if 2 * r > d then int q + 1
         else if even q then int q else int q + 1)"

definition lcs_ratio :: "string \<Rightarrow> string \<Rightarrow> int" where
  "lcs_ratio a b =
     (if length a + length b = 0 then 100
      else round_half_even (200 * lcs_length a b) (length a + length b))"

definition best_window_ratio :: "string \<Rightarrow> string \<Rightarrow> int" where
  "best_window_ratio a b =
     (let shorter = (if length a \<le> length b then a else b);
          longer = (if length a \<le> length b then b else a)
      in fold max
           (map (\<lambda>i. lcs_ratio shorter (take (length shorter) (drop i longer)))
              [0..<Suc (length longer - length shorter)])
           0)"

definition sample_fuzz :: fuzz where
  "sample_fuzz = \<lparr>partial_ratio = best_window_ratio, ratio = lcs_ratio\<rparr>"

section \<open>Properties of the composite score\<close>

text \<open>
  Claim C5.  Whatever the review count (zero included), the average sentiment, the three
  rating lists (empty or not) and the four counts, the composite score lies in the interval
  from 0 to 100.
\<close>

theorem composite_score_bounds:
  fixes total_reviews high_confidence authentic positive negative :: int
    and avg_sentiment :: real
    and technical communication professionalism :: "real list"
    and recommendations repeat_clients false_positives :: int
  shows "0 \<le> calculate_composite_score total_reviews high_confidence authentic positive negative
               avg_sentiment technical communication professionalism
               recommendations repeat_clients false_positives
       \<and> calculate_composite_score total_reviews high_confidence authentic positive negative
               avg_sentiment technical communication professionalism
               recommendations repeat_clients false_positives \<le> 100"
  unfolding calculate_composite_score_def Let_def by simp



section \<open>Auxiliary facts on strings, digests and tables\<close>

lemma length_le_bytes: "length (le_bytes k n) = k"
  by (induction k arbitrary: n) auto

lemma le_bytes_bound: "b \<in> set (le_bytes k n) \<Longrightarrow> b < 256"
  by (induction k arbitrary: n) auto

lemma length_md5_digest: "length (md5_digest m) = 16"
  unfolding md5_digest_def by (simp add: length_le_bytes split: prod.splits)

lemma md5_digest_bound: "b \<in> set (md5_digest m) \<Longrightarrow> b < 256"
  unfolding md5_digest_def by (auto split: prod.splits dest: le_bytes_bound)

lemma length_md5_hexdigest: "length (md5_hexdigest m) = 32"
proof -
  have "length (concat (map hex_byte xs)) = 2 * length xs" for xs
    by (induction xs) (auto simp: hex_byte_def)
  then show ?thesis by (simp add: md5_hexdigest_def length_md5_digest)
qed

lemma hex_digit_no_underscore: "i < 16 \<Longrightarrow> ''0123456789abcdef'' ! i \<noteq> CHR ''_''"
proof -
  assume "i < 16"
  then have "''0123456789abcdef'' ! i \<in> set ''0123456789abcdef''"
    by (intro nth_mem) simp
  then show ?thesis by auto
qed

lemma hex_byte_no_underscore: "n < 256 \<Longrightarrow> CHR ''_'' \<notin> set (hex_byte n)"
proof -
  assume n: "n < 256"
  then have "n div 16 < 16" "n mod 16 < 16" by auto
  then show ?thesis
    using hex_digit_no_underscore[of "n div 16"] hex_digit_no_underscore[of "n mod 16"]
    by (auto simp: hex_byte_def)
qed

lemma md5_hexdigest_no_underscore: "CHR ''_'' \<notin> set (md5_hexdigest m)"
  unfolding md5_hexdigest_def
  using hex_byte_no_underscore md5_digest_bound by fastforce

lemma split_on_nonempty: "split_on sep s \<noteq> []"
  by (induction s) (auto split: list.splits)

lemma split_on_no_sep: "sep \<notin> set s \<Longrightarrow> split_on sep s = [s]"
  by (induction s) auto

lemma length_split_on: "length (split_on sep s) = Suc (length (filter (\<lambda>c. c = sep) s))"
  by (induction s) (auto simp: split_on_nonempty split: list.splits)

lemma last_split_on: "sep \<notin> set b \<Longrightarrow> last (split_on sep (a @ sep # b)) = b"
proof (induction a)
  case Nil
  then show ?case by (simp add: split_on_no_sep)
next
  case (Cons x a)
  have "length (split_on sep (a @ sep # b)) \<ge> 2"
    by (simp add: length_split_on)
  then obtain p q ps where "split_on sep (a @ sep # b) = p # q # ps"
    by (cases "split_on sep (a @ sep # b)"; cases "tl (split_on sep (a @ sep # b))") auto
  with Cons show ?case by (auto simp: split_on_no_sep)
qed

lemma hd_split_on: "sep \<notin> set a \<Longrightarrow> hd (split_on sep (a @ sep # b)) = a"
  by (induction a) (auto simp: split_on_nonempty split: list.splits)

lemma contains_iff: "contains hay needle \<longleftrightarrow> (\<exists>a b. hay = a @ needle @ b)"
proof (induction hay)
  case Nil
  then show ?case by auto
next
  case (Cons c cs)
  show ?case
  proof
    assume "contains (c # cs) needle"
    then consider "prefix needle (c # cs)" | "contains cs needle" by auto
    then show "\<exists>a b. c # cs = a @ needle @ b"
    proof cases
      case 1
      then obtain b where "c # cs = needle @ b" by (auto simp: prefix_def)
      then have "c # cs = [] @ needle @ b" by simp
      then show ?thesis by blast
    next
      case 2
      with Cons obtain a b where "cs = a @ needle @ b" by auto
      then have "c # cs = (c # a) @ needle @ b" by simp
      then show ?thesis by blast
    qed
  next
    assume "\<exists>a b. c # cs = a @ needle @ b"
    then obtain a b where ab: "c # cs = a @ needle @ b" by auto
    show "contains (c # cs) needle"
    proof (cases a)
      case Nil
      with ab have "prefix needle (c # cs)" by (auto simp: prefix_def)
      then show ?thesis by simp
    next
      case (Cons x a')
      with ab have "cs = a' @ needle @ b" by simp
      with Cons.IH have "contains cs needle" by blast
      then show ?thesis by simp
    qed
  qed
qed


lemma map_update_absent:
  "find (\<lambda>r. key r = k) xs = None \<Longrightarrow> map (\<lambda>r. if key r = k then g r else r) xs = xs"
  by (induction xs) (auto split: if_splits)

lemma get_or_simps: "get_or (Some x) d = x" "get_or None d = d"
  by (simp_all add: get_or_def)

lemma database_rmt_profiles_same: "db\<lparr>rmt_profiles := rmt_profiles db\<rparr> = db"
  by simp



lemma take8_no_underscore: "CHR ''_'' \<notin> set (take 8 (md5_hexdigest m))"
  using md5_hexdigest_no_underscore[of m] by (auto dest: in_set_takeD)

lemma split_on_take8: "split_on CHR ''_'' (take 8 (md5_hexdigest m)) = [take 8 (md5_hexdigest m)]"
  by (rule split_on_no_sep[OF take8_no_underscore])

lemma content_hash_not_short: "content_hash rd \<noteq> take 8 (md5_hexdigest m)"
proof
  assume "content_hash rd = take 8 (md5_hexdigest m)"
  then have "length (content_hash rd) = length (take 8 (md5_hexdigest m))" by simp
  then show False by (simp add: content_hash_def length_md5_hexdigest)
qed

lemma content_hash_notin_short_image:
  "content_hash rd \<notin> (\<lambda>a. take 8 (md5_hexdigest m)) ` S"
  using content_hash_not_short by auto

lemma save_review_extraction_absent:
  assumes "find_profile db (profile_id (ex_rmt_data e)) = None"
  shows "save_review_extraction db e rid now = (db, True)"
proof -
  have absent: "find (\<lambda>r. p_profile_id r = profile_id (ex_rmt_data e)) (rmt_profiles db) = None"
    using assms by (simp add: find_profile_def)
  show ?thesis
    using assms map_update_absent[OF absent]
    by (simp add: save_review_extraction_def Let_def)
qed

lemma demo_profile_absent:
  "find_profile init_database (profile_id (ex_rmt_data demo_extraction)) = None"
  by (simp add: find_profile_def init_database_def)



lemma demo_bad_id:
  "\<exists>s x u v. an_extraction_id (demo_analysis (PyStr ''P1_unknown_0'')) = PyStr s
      \<and> x \<in> set sentinels \<and> s = u @ x @ v"
proof (intro exI conjI)
  show "an_extraction_id (demo_analysis (PyStr ''P1_unknown_0'')) = PyStr ''P1_unknown_0''"
    by (simp add: demo_analysis_def)
  show "''unknown'' \<in> set sentinels" by (simp add: sentinels_def)
  show "''P1_unknown_0'' = ''P1_'' @ ''unknown'' @ ''_0''" by simp
qed

section \<open>Properties of the extraction store\<close>

text \<open>
  Claim C10.  When the store holds no profile row for the professional of an extraction,
  \<open>save_review_extraction\<close> answers \<open>True\<close> and leaves the store as it was: the UPDATE
  finds no row.  A second, identical call therefore answers \<open>True\<close> again.
\<close>

theorem save_without_profile_row:
  assumes "find_profile db (profile_id (ex_rmt_data e)) = None"
  shows "save_review_extraction db e rid now = (db, True)
       \<and> save_review_extraction (fst (save_review_extraction db e rid now)) e rid2 now2
           = (db, True)"
  using save_review_extraction_absent[OF assms] by simp

theorem save_without_profile_row_witness:
  "find_profile init_database (profile_id (ex_rmt_data demo_extraction)) = None
   \<and> save_review_extraction init_database demo_extraction ''full_1'' 1 = (init_database, True)
   \<and> save_review_extraction
        (fst (save_review_extraction init_database demo_extraction ''full_1'' 1))
        demo_extraction ''incremental_2'' 2 = (init_database, True)"
  using demo_profile_absent save_without_profile_row[OF demo_profile_absent]
  by simp




text \<open>
  Claim C9.  \<open>save_analysis\<close> of the analysis-only runner inserts nothing when the
  extraction id is the empty string, is not a string, or contains one of the sentinel
  substrings: it logs one error line and returns the store as it was.
\<close>

theorem save_analysis_rejects_bad_id:
  assumes "an_extraction_id a = PyStr []
         \<or> (\<forall>s. an_extraction_id a \<noteq> PyStr s)
         \<or> (\<exists>s x u v. an_extraction_id a = PyStr s \<and> x \<in> set sentinels \<and> s = u @ x @ v)"
  shows "save_analysis db a rid now
         = Inr (db, [''Skipping analysis with bad extraction_id: '' @ py_str (an_extraction_id a)])"
proof -
  have "bad_extraction_id (an_extraction_id a)"
  proof (cases "an_extraction_id a")
    case (PyStr s)
    with assms consider "s = []" | "\<exists>x u v. x \<in> set sentinels \<and> s = u @ x @ v" by auto
    then show ?thesis
    proof cases
      case 1
      with PyStr show ?thesis by (simp add: bad_extraction_id_def)
    next
      case 2
      then obtain x where "x \<in> set sentinels" "contains s x"
        using contains_iff by blast
      then have "list_ex (contains s) sentinels" by (auto simp: list_ex_iff)
      with PyStr show ?thesis by (simp add: bad_extraction_id_def)
    qed
  qed (simp_all add: bad_extraction_id_def)
  then show ?thesis by (simp add: save_analysis_def)
qed

theorem save_analysis_rejects_bad_id_witness:
  "save_analysis demo_db (demo_analysis (PyStr ''P1_unknown_0'')) ''analysis_only_5'' 5
     = Inr (demo_db, [''Skipping analysis with bad extraction_id: P1_unknown_0''])
   \<and> save_analysis demo_db (demo_analysis PyNone) ''analysis_only_5'' 5
     = Inr (demo_db, [''Skipping analysis with bad extraction_id: None''])
   \<and> save_analysis demo_db (demo_analysis (PyStr [])) ''analysis_only_5'' 5
     = Inr (demo_db, [''Skipping analysis with bad extraction_id: ''])"
  using save_analysis_rejects_bad_id[of "demo_analysis (PyStr ''P1_unknown_0'')" demo_db
          "''analysis_only_5''" 5] demo_bad_id
        save_analysis_rejects_bad_id[of "demo_analysis PyNone" demo_db "''analysis_only_5''" 5]
        save_analysis_rejects_bad_id[of "demo_analysis (PyStr [])" demo_db "''analysis_only_5''" 5]
  by (simp add: demo_analysis_def)

text \<open>
  Claim C1 at its failing input.  A profile is saved, an extraction whose id is built as
  \<open>extract_review_data\<close> builds it is stored, and its analysis is saved by
  \<open>save_ai_analysis\<close>.  The analysis row carries the last part of the extraction id, eight
  digits of the MD5 of the text, while the stored review carries the 32 digits of the MD5 of
  text, author and time; the two never agree, and the extraction is still returned by
  \<open>get_unanalyzed_extractions\<close>.
\<close>

theorem backlog_keeps_analyzed_extraction:
  "(let db1 = save_rmt_profile init_database demo_rmt ''full_1'' 1;
        db2 = fst (save_review_extraction db1 demo_extraction ''full_1'' 2)
    in snd (save_review_extraction db1 demo_extraction ''full_1'' 2)
       \<and> (case save_ai_analysis db2 (demo_analysis (PyStr (extraction_id demo_extraction)))
                   ''full_1'' ''gemini'' 3 of
             Inl err \<Rightarrow> False
           | Inr (db3, logged) \<Rightarrow>
               logged = []
               \<and> map a_profile_id (ai_analyses db3) = [''P1'']
               \<and> map a_review_hash (ai_analyses db3)
                   = [take 8 (md5_hexdigest (rv_text demo_review))]
               \<and> map review_hash (stored_reviews db3 ''P1'') = [content_hash demo_review]
               \<and> map u_extraction_id (get_unanalyzed_extractions db3 None)
                   = [extraction_id demo_extraction]))"
  by (simp add: Let_def save_rmt_profile_def find_profile_def init_database_def
      save_review_extraction_def demo_extraction_def demo_rmt_def get_or_simps
      save_ai_analysis_def demo_analysis_def make_extraction_id_def split_on_take8
      stored_reviews_def get_unanalyzed_extractions_def sql_limit_def analyzed_hashes_def
      new_review_def extraction_row_def content_hash_not_short
      content_hash_notin_short_image)

section \<open>Properties of the run lifecycle\<close>





















end
